theory Spec2Isabelle
  imports Main "HOL-Library.Word"
begin

section \<open>Python values and library functions used by \<open>lib/spack/spack/patch.py\<close>\<close>

type_synonym byte = "8 word"

text \<open>
  The object passed as \<open>level\<close>. Python decides \<open>isinstance(level, int)\<close> on its class:
  an \<open>int\<close> (unbounded) and a \<open>bool\<close> (a subclass of \<open>int\<close>, \<open>False == 0\<close> and
  \<open>True == 1\<close>) are instances, a string, \<open>None\<close> and an instance of any other class
  (a float, a list, ...; named by its class) are not.
\<close>

datatype pyobj = PyInt int | PyBool bool | PyStr string | PyNone | PyObject string

fun isinstance_int :: "pyobj \<Rightarrow> bool" where
  "isinstance_int (PyInt n) = True"
| "isinstance_int (PyBool b) = True"
| "isinstance_int v = False"

text \<open>\<open>level >= 0\<close>; the source evaluates it only after \<open>isinstance(level, int)\<close> held.\<close>

fun ge_zero :: "pyobj \<Rightarrow> bool" where
  "ge_zero (PyInt n) = (0 \<le> n)"
| "ge_zero (PyBool b) = True"
| "ge_zero v = False"

text \<open>Decimal digits of a natural number, most significant first.\<close>

fun digits :: "nat \<Rightarrow> string" where
  "digits n =
     (if n < 10 then [''0123456789'' ! n]
      else digits (n div 10) @ [''0123456789'' ! (n mod 10)])"

text \<open>\<open>str(level)\<close>. Only an \<open>int\<close> or a \<open>bool\<close> is ever stored in a Patch.\<close>

fun py_str :: "pyobj \<Rightarrow> string" where
  "py_str (PyInt n) = (if n < 0 then CHR ''-'' # digits (nat (- n)) else digits (nat n))"
| "py_str (PyBool b) = (if b then ''True'' else ''False'')"
| "py_str (PyStr s) = s"
| "py_str PyNone = ''None''"
| "py_str (PyObject c) = ''<'' @ c @ '' object>''"

text \<open>\<open>needle in hay\<close> on strings: \<open>needle\<close> occurs as a contiguous substring.\<close>

fun starts_with :: "string \<Rightarrow> string \<Rightarrow> bool" where
  "starts_with [] hay = True"
| "starts_with (c # cs) [] = False"
| "starts_with (c # cs) (h # hs) = (c = h \<and> starts_with cs hs)"

fun str_in :: "string \<Rightarrow> string \<Rightarrow> bool" where
  "str_in needle [] = starts_with needle []"
| "str_in needle (h # hs) = (starts_with needle (h # hs) \<or> str_in needle hs)"

text \<open>\<open>str.lower()\<close> on the ASCII text that \<open>b32encode\<close> produces.\<close>

definition lower_char :: "char \<Rightarrow> char" where
  "lower_char c =
     (case map_of (zip ''ABCDEFGHIJKLMNOPQRSTUVWXYZ'' ''abcdefghijklmnopqrstuvwxyz'') c of
        Some d \<Rightarrow> d
      | None \<Rightarrow> c)"

definition lower :: "string \<Rightarrow> string" where
  "lower s = map lower_char s"

function chunks :: "nat \<Rightarrow> 'a list \<Rightarrow> 'a list list" where
  "chunks n xs = (if n = 0 \<or> xs = [] then [] else take n xs # chunks n (drop n xs))"
  by pat_completeness auto
termination
  by (relation "measure (\<lambda>(n, xs). length xs)") auto

text \<open>
  \<open>base64.b32encode\<close> of the standard library (RFC 4648): the input, padded with zero
  bytes to a multiple of five, is cut into quanta of five bytes; each quantum is eight
  groups of five bits, most significant first, each written as a letter of the
  alphabet; the characters that stand for padding only are replaced by \<open>=\<close>.
\<close>

definition b32tab :: string where
  "b32tab = ''ABCDEFGHIJKLMNOPQRSTUVWXYZ234567''"

definition b32_quantum :: "byte list \<Rightarrow> string" where
  "b32_quantum q =
     (let n = foldl (\<lambda>a b. a * 256 + unat b) 0 q
      in map (\<lambda>k. b32tab ! ((n div 32 ^ (7 - k)) mod 32)) [0..<8])"

definition b32encode :: "byte list \<Rightarrow> string" where
  "b32encode s =
     (let leftover = length s mod 5;
          padded = (if leftover \<noteq> 0 then s @ replicate (5 - leftover) 0 else s);
          encoded = concat (map b32_quantum (chunks 5 padded))
      in if leftover = 1 then take (length encoded - 6) encoded @ ''======''
         else if leftover = 2 then take (length encoded - 4) encoded @ ''====''
         else if leftover = 3 then take (length encoded - 3) encoded @ ''===''
         else if leftover = 4 then take (length encoded - 1) encoded @ ''=''
         else encoded)"

text \<open>
  \<open>hashlib.md5(data).digest()\<close> is the standard library's, not this repository's: the
  digest function is a parameter of the model. An MD5 digest is 128 bits;
  \<open>digest_bytes\<close> are its sixteen bytes, most significant first.
\<close>

definition digest_bytes :: "128 word \<Rightarrow> byte list" where
  "digest_bytes d = map (\<lambda>k. ucast (drop_bit (8 * (15 - k)) d)) [0..<16]"

section \<open>Exceptions, effects and collaborators\<close>

text \<open>
  The exceptions that leave the module: \<open>ValueError\<close> (its message),
  \<open>NameError\<close> (the name that is not bound), \<open>TypeError\<close>, \<open>IOError\<close> (the path
  that could not be opened), \<open>NoSuchPatchFileError\<close> (package, path), and
  \<open>ProcessError\<close> (exit status, output), the failure of the external tool.
\<close>

datatype exc =
    ValueError string
  | NameError string
  | TypeError string
  | IOError string
  | NoSuchPatchFileError string string
  | ProcessError int string

text \<open>What the module does to the outside, in the order it does it.\<close>

datatype event =
    DirnameLookup string
  | IsFile string
  | ChdirToSource
  | OpenRead string
  | StageEnter string
  | StageFetch string
  | StageExit string
  | RunPatch "string list"

record world =
  cwd :: string
  events :: "event list"

definition emit :: "event \<Rightarrow> world \<Rightarrow> world" where
  "emit e w = w\<lparr>events := events w @ [e]\<rparr>"

text \<open>
  The collaborators the module calls and whose code is elsewhere:
  \<open>spack.repo.dirname_for_package_name\<close>, \<open>llnl.util.filesystem.join_path\<close>,
  \<open>os.path.isfile\<close>, the content \<open>open(path, 'rb').read()\<close> returns (\<open>None\<close> when
  the file cannot be opened), \<open>hashlib.md5\<close>, and the executable \<open>_patch\<close>
  (\<open>None\<close> when the call returns, the exception it raises otherwise).
\<close>

record env =
  dirname_for_package_name :: "string \<Rightarrow> string"
  join_path :: "string \<Rightarrow> string \<Rightarrow> string"
  isfile :: "string \<Rightarrow> bool"
  read_bytes :: "string \<Rightarrow> byte list option"
  md5_digest :: "byte list \<Rightarrow> 128 word"
  patch_exe :: "string list \<Rightarrow> exc option"

text \<open>
  The stage handed to \<open>apply\<close>: \<open>chdir_to_source\<close> takes the working directory and
  gives the new one, or raises.
\<close>

record stage =
  chdir_to_source :: "string \<Rightarrow> exc + string"

record package =
  name :: string

section \<open>The class \<open>Patch\<close>\<close>

record Patch =
  pkg_name :: string
  path_or_url :: string
  path :: "string option"
  url :: "string option"
  level :: pyobj
  cached_file_hash :: "string option"

text \<open>
  \<open>Patch.__init__\<close>. When the file is missing, line 64 evaluates the arguments of
  \<open>NoSuchPatchFileError(pkg_name, self.path)\<close> first, and \<open>pkg_name\<close> is bound neither
  in the method (its names are \<open>self\<close>, \<open>pkg\<close>, \<open>path_or_url\<close>, \<open>level\<close>,
  \<open>pkg_dir\<close>) nor in the module: the statement raises \<open>NameError\<close>.
\<close>

definition Patch_init ::
  "env \<Rightarrow> package \<Rightarrow> string \<Rightarrow> pyobj \<Rightarrow> world \<Rightarrow> (exc + Patch) \<times> world" where
  "Patch_init E pkg spec lvl w =
     (if \<not> isinstance_int lvl \<or> \<not> ge_zero lvl
      then (Inl (ValueError ''Patch level needs to be a non-negative integer.''), w)
      else if str_in ''://'' spec
      then (Inr \<lparr>pkg_name = name pkg, path_or_url = spec, path = None, url = Some spec,
                 level = lvl, cached_file_hash = None\<rparr>, w)
      else
        (let pkg_dir = dirname_for_package_name E (name pkg);
             w1 = emit (DirnameLookup (name pkg)) w;
             p = join_path E pkg_dir spec;
             w2 = emit (IsFile p) w1
         in if \<not> isfile E p
            then (Inl (NameError ''pkg_name''), w2)
            else (Inr \<lparr>pkg_name = name pkg, path_or_url = spec, path = Some p, url = None,
                       level = lvl, cached_file_hash = None\<rparr>, w2)))"

text \<open>
  The module function \<open>file_hash(path)\<close>: open, read all bytes, MD5, base-32,
  lower case. \<open>open(None, 'rb')\<close> raises \<open>TypeError\<close>.
\<close>

definition file_hash :: "env \<Rightarrow> string option \<Rightarrow> world \<Rightarrow> (exc + string) \<times> world" where
  "file_hash E pf w =
     (case pf of
        None \<Rightarrow> (Inl (TypeError ''open''), w)
      | Some f \<Rightarrow>
          (case read_bytes E f of
             None \<Rightarrow> (Inl (IOError f), emit (OpenRead f) w)
           | Some bs \<Rightarrow>
               (Inr (lower (b32encode (digest_bytes (md5_digest E bs)))),
                emit (OpenRead f) w)))"

text \<open>
  The two context managers. Entering one gives the path it yields and the events its
  exit adds, or the exception it raises.

  \<open>get_file(path)\<close> yields its argument and does nothing on exit.

  \<open>get_url(url)\<close> starts with \<open>spack.stage.Stage(self.url)\<close>: \<open>self\<close> is neither a
  parameter of the function nor a name of the module, so entering it raises
  \<open>NameError\<close> before a Stage is made; the fetch and the yield are never reached.
\<close>

definition get_file :: "string option \<Rightarrow> world \<Rightarrow> (exc + string option \<times> event list) \<times> world" where
  "get_file p w = (Inr (p, []), w)"

definition get_url :: "string \<Rightarrow> world \<Rightarrow> (exc + string option \<times> event list) \<times> world" where
  "get_url u w = (Inl (NameError ''self''), w)"

text \<open>\<open>Patch.get_patch\<close>: \<open>if self.url:\<close> holds for a string that is not empty.\<close>

definition get_patch :: "Patch \<Rightarrow> world \<Rightarrow> (exc + string option \<times> event list) \<times> world" where
  "get_patch P w =
     (case url P of
        None \<Rightarrow> get_file (path P) w
      | Some u \<Rightarrow> if u = [] then get_file (path P) w else get_url u w)"

text \<open>Leaving a \<open>with\<close> block, on either way out: the exit's events.\<close>

definition leave :: "event list \<Rightarrow> world \<Rightarrow> world" where
  "leave rel w = w\<lparr>events := events w @ rel\<rparr>"

text \<open>
  The property \<open>Patch.file_hash\<close>. \<open>not self._file_hash\<close> holds for \<open>None\<close> and
  for the empty string: then the \<open>with\<close> block acquires the patch, hashes it and
  stores the hash; otherwise the stored hash is returned as it is.
\<close>

definition compute_file_hash ::
  "env \<Rightarrow> Patch \<Rightarrow> world \<Rightarrow> (exc + string) \<times> Patch \<times> world" where
  "compute_file_hash E P w =
     (case get_patch P w of
        (Inl e, w1) \<Rightarrow> (Inl e, P, w1)
      | (Inr (pf, rel), w1) \<Rightarrow>
          (case file_hash E pf w1 of
             (Inl e, w2) \<Rightarrow> (Inl e, P, leave rel w2)
           | (Inr h, w2) \<Rightarrow> (Inr h, P\<lparr>cached_file_hash := Some h\<rparr>, leave rel w2)))"

definition Patch_file_hash ::
  "env \<Rightarrow> Patch \<Rightarrow> world \<Rightarrow> (exc + string) \<times> Patch \<times> world" where
  "Patch_file_hash E P w =
     (case cached_file_hash P of
        None \<Rightarrow> compute_file_hash E P w
      | Some h \<Rightarrow> if h = [] then compute_file_hash E P w else (Inr h, P, w))"

text \<open>
  The body of the \<open>with\<close> block of \<open>apply\<close>: the hash is stored, then \<open>_patch\<close> is
  called with \<open>'-s', '-p', str(self.level), '-i', patch_file\<close>. (\<open>patch_file\<close> is a
  string here: \<open>file_hash\<close> has raised on \<open>None\<close>.)
\<close>

definition patch_args :: "Patch \<Rightarrow> string \<Rightarrow> string list" where
  "patch_args P f = [''-s'', ''-p'', py_str (level P), ''-i'', f]"

definition apply_body ::
  "env \<Rightarrow> Patch \<Rightarrow> string option \<Rightarrow> world \<Rightarrow> (exc + unit) \<times> Patch \<times> world" where
  "apply_body E P pf w =
     (case file_hash E pf w of
        (Inl e, w1) \<Rightarrow> (Inl e, P, w1)
      | (Inr h, w1) \<Rightarrow>
          (let P1 = P\<lparr>cached_file_hash := Some h\<rparr>;
               args = patch_args P (case pf of Some f \<Rightarrow> f | None \<Rightarrow> []);
               w2 = emit (RunPatch args) w1
           in case patch_exe E args of
                None \<Rightarrow> (Inr (), P1, w2)
              | Some e \<Rightarrow> (Inl e, P1, w2)))"

text \<open>\<open>Patch.apply(stage)\<close>.\<close>

definition apply_patch ::
  "env \<Rightarrow> stage \<Rightarrow> Patch \<Rightarrow> world \<Rightarrow> (exc + unit) \<times> Patch \<times> world" where
  "apply_patch E S P w =
     (case chdir_to_source S (cwd w) of
        Inl e \<Rightarrow> (Inl e, P, emit ChdirToSource w)
      | Inr d \<Rightarrow>
          (let w0 = (emit ChdirToSource w)\<lparr>cwd := d\<rparr>
           in case get_patch P w0 of
                (Inl e, w1) \<Rightarrow> (Inl e, P, w1)
              | (Inr (pf, rel), w1) \<Rightarrow>
                  (case apply_body E P pf w1 of
                     (r, P1, w2) \<Rightarrow> (r, P1, leave rel w2))))"

text \<open>The argument lists of the tool runs in a trace, in order.\<close>

fun tool_runs :: "event list \<Rightarrow> string list list" where
  "tool_runs [] = []"
| "tool_runs (RunPatch args # es) = args # tool_runs es"
| "tool_runs (e # es) = tool_runs es"

section \<open>A concrete repository, stage and tool\<close>

text \<open>
  Three packages with one patch file each (two of the files hold the same bytes), a
  stage whose source tree is \<open>/stage/src\<close>, a tool that succeeds and one that exits
  with status 1 and the message \<open>malformed patch\<close>. The digest function of the
  examples gives the MD5 digests of the two contents that occur, the bytes of
  \<open>diff\<close> and of \<open>---\<close>, as \<open>hashlib.md5\<close> computes them. In \<open>env_edited\<close> the
  patch file of package \<open>foo\<close> has been rewritten.
\<close>

definition md5_known :: "(byte list \<times> 128 word) list" where
  "md5_known =
     [([100, 105, 102, 102], 0x2d2dee7af60385a060eae7f556845a8b),
      ([45, 45, 45], 0x9efc314b65237d5d646e1b817372afc6)]"

definition repo_files :: "(string \<times> byte list) list" where
  "repo_files =
     [(''/repo/packages/foo/fix-build.patch'', [100, 105, 102, 102]),
      (''/repo/packages/baz/other.patch'', [45, 45, 45]),
      (''/repo/packages/qux/same.patch'', [100, 105, 102, 102])]"

definition env0 :: env where
  "env0 =
     \<lparr>dirname_for_package_name = (\<lambda>n. ''/repo/packages/'' @ n),
      join_path = (\<lambda>a b. a @ ''/'' @ b),
      isfile = (\<lambda>f. map_of repo_files f \<noteq> None),
      read_bytes = map_of repo_files,
      md5_digest = (\<lambda>bs. case map_of md5_known bs of Some d \<Rightarrow> d | None \<Rightarrow> 0),
      patch_exe = (\<lambda>args. None)\<rparr>"

definition env_fail :: env where
  "env_fail = env0\<lparr>patch_exe := (\<lambda>args. Some (ProcessError 1 ''malformed patch''))\<rparr>"

definition env_edited :: env where
  "env_edited =
     env0\<lparr>read_bytes :=
       (\<lambda>f. if f = ''/repo/packages/foo/fix-build.patch'' then Some [45, 45, 45]
            else map_of repo_files f)\<rparr>"

definition stage0 :: stage where
  "stage0 = \<lparr>chdir_to_source = (\<lambda>d. Inr ''/stage/src'')\<rparr>"

definition w0 :: world where
  "w0 = \<lparr>cwd = ''/home/user'', events = []\<rparr>"

definition patch_foo :: Patch where
  "patch_foo =
     \<lparr>pkg_name = ''foo'', path_or_url = ''fix-build.patch'',
      path = Some ''/repo/packages/foo/fix-build.patch'', url = None,
      level = PyInt 1, cached_file_hash = None\<rparr>"

definition patch_baz :: Patch where
  "patch_baz =
     \<lparr>pkg_name = ''baz'', path_or_url = ''other.patch'',
      path = Some ''/repo/packages/baz/other.patch'', url = None,
      level = PyInt 2, cached_file_hash = None\<rparr>"

definition patch_qux :: Patch where
  "patch_qux =
     \<lparr>pkg_name = ''qux'', path_or_url = ''same.patch'',
      path = Some ''/repo/packages/qux/same.patch'', url = None,
      level = PyInt 12, cached_file_hash = None\<rparr>"

definition patch_remote :: Patch where
  "patch_remote =
     \<lparr>pkg_name = ''foo'', path_or_url = ''https://example.org/p.patch'',
      path = None, url = Some ''https://example.org/p.patch'',
      level = PyInt 0, cached_file_hash = None\<rparr>"

section \<open>Acquisition, hashing and the cache\<close>

lemma get_patch_acquired:
  "get_patch P w = (Inr (pf, rel), w1) \<Longrightarrow> pf = path P \<and> rel = [] \<and> w1 = w"
  by (auto simp: get_patch_def get_file_def get_url_def split: option.splits if_splits)

lemma get_patch_world:
  "get_patch P w = (fst (get_patch P w'), w)"
  by (auto simp: get_patch_def get_file_def get_url_def split: option.splits if_splits)

lemma get_patch_yields:
  assumes "fst (get_patch P w') = Inr (Some f, rel)"
  shows "get_patch P w = (Inr (Some f, []), w)"
proof -
  have "get_patch P w = (Inr (Some f, rel), w)"
    using assms get_patch_world [of P w w'] by simp
  then show ?thesis
    using get_patch_acquired [of P w "Some f" rel w] by simp
qed

lemma length_digest_bytes: "length (digest_bytes d) = 16"
  by (simp add: digest_bytes_def)

lemma hash_not_empty: "lower (b32encode (digest_bytes d)) \<noteq> []"
  by (simp add: lower_def b32encode_def length_digest_bytes Let_def)

lemma leave_nothing: "leave [] w = w"
  by (simp add: leave_def)

lemma compute_file_hash_readable:
  assumes "fst (get_patch P w') = Inr (Some f, rel)" and "read_bytes E f = Some B"
  shows "compute_file_hash E P w =
           (Inr (lower (b32encode (digest_bytes (md5_digest E B)))),
            P\<lparr>cached_file_hash := Some (lower (b32encode (digest_bytes (md5_digest E B))))\<rparr>,
            emit (OpenRead f) w)"
  using get_patch_yields [OF assms(1), of w] assms(2)
  by (simp add: compute_file_hash_def file_hash_def leave_nothing)

lemma Patch_file_hash_cached:
  "cached_file_hash P = Some h \<Longrightarrow> h \<noteq> [] \<Longrightarrow> Patch_file_hash E P w = (Inr h, P, w)"
  by (simp add: Patch_file_hash_def)

lemma compute_file_hash_stores:
  "compute_file_hash E P w = (Inr h, P1, w1) \<Longrightarrow> cached_file_hash P1 = Some h \<and> h \<noteq> []"
  by (auto simp: compute_file_hash_def file_hash_def hash_not_empty
      split: prod.splits sum.splits option.splits)

lemma Patch_file_hash_stores:
  "Patch_file_hash E P w = (Inr h, P1, w1) \<Longrightarrow> cached_file_hash P1 = Some h \<and> h \<noteq> []"
  by (auto simp: Patch_file_hash_def dest: compute_file_hash_stores
      split: option.splits if_splits)

lemma apply_body_stores:
  "apply_body E P pf w = (Inr (), P1, w1) \<Longrightarrow> \<exists>h. cached_file_hash P1 = Some h \<and> h \<noteq> []"
  by (auto simp: apply_body_def file_hash_def hash_not_empty Let_def
      split: prod.splits sum.splits option.splits)

lemma apply_patch_stores:
  "apply_patch E S P w = (Inr (), P1, w1) \<Longrightarrow> \<exists>h. cached_file_hash P1 = Some h \<and> h \<noteq> []"
  by (auto simp: apply_patch_def Let_def dest: apply_body_stores
      split: prod.splits sum.splits)

lemma apply_patch_readable:
  assumes "chdir_to_source S (cwd w) = Inr d"
    and "fst (get_patch P w') = Inr (Some f, rel)"
    and "read_bytes E f = Some B"
  shows "apply_patch E S P w =
           ((case patch_exe E (patch_args P f) of None \<Rightarrow> Inr () | Some e \<Rightarrow> Inl e),
            P\<lparr>cached_file_hash := Some (lower (b32encode (digest_bytes (md5_digest E B))))\<rparr>,
            \<lparr>cwd = d, events = events w @ [ChdirToSource, OpenRead f, RunPatch (patch_args P f)]\<rparr>)"
  using assms(1) assms(3) get_patch_yields [OF assms(2), of "(emit ChdirToSource w)\<lparr>cwd := d\<rparr>"]
  by (simp add: apply_patch_def apply_body_def file_hash_def Let_def emit_def leave_def
      split: option.splits)

section \<open>The library functions on known values\<close>

lemma replicate_numeral_Cons: "replicate (numeral k) x = x # replicate (pred_numeral k) x"
  by (simp add: numeral_eq_Suc)

lemma b32encode_examples:
  "b32encode [102, 111, 111, 98, 97, 114] = ''MZXW6YTBOI======''
   \<and> lower (b32encode [102, 111]) = ''mzxq====''
   \<and> b32encode [102, 111, 111, 98, 97] = ''MZXW6YTB''"
  by (simp add: b32encode_def b32_quantum_def b32tab_def Let_def upt_rec lower_def lower_char_def
      replicate_numeral_Cons)

section \<open>Construction\<close>

lemma Patch_init_examples:
  "Patch_init env0 \<lparr>name = ''foo''\<rparr> ''fix-build.patch'' (PyInt 1) w0
     = (Inr patch_foo,
        \<lparr>cwd = ''/home/user'',
         events = [DirnameLookup ''foo'', IsFile ''/repo/packages/foo/fix-build.patch'']\<rparr>)"
  "Patch_init env0 \<lparr>name = ''baz''\<rparr> ''other.patch'' (PyInt 2) w0
     = (Inr patch_baz,
        \<lparr>cwd = ''/home/user'',
         events = [DirnameLookup ''baz'', IsFile ''/repo/packages/baz/other.patch'']\<rparr>)"
  "Patch_init env0 \<lparr>name = ''foo''\<rparr> ''https://example.org/p.patch'' (PyInt 0) w0
     = (Inr patch_remote, w0)"
  by (simp_all add: Patch_init_def env0_def repo_files_def w0_def patch_foo_def patch_baz_def
      patch_remote_def emit_def Let_def)

text \<open>
  C1. The claim: constructing a Patch with a local specifier whose resolved path is not a
  regular file fails with \<open>NoSuchPatchFileError\<close> carrying the package name and the
  path. The code does not: for package \<open>bar\<close> and the missing \<open>missing.patch\<close> the
  constructor raises \<open>NameError\<close> for the unbound name \<open>pkg_name\<close>, and no
  construction at all ends in \<open>NoSuchPatchFileError\<close>.
\<close>

theorem missing_patch_file_raises_NameError:
  "Patch_init env0 \<lparr>name = ''bar''\<rparr> ''missing.patch'' (PyInt 1) w0
     = (Inl (NameError ''pkg_name''),
        \<lparr>cwd = ''/home/user'',
         events = [DirnameLookup ''bar'', IsFile ''/repo/packages/bar/missing.patch'']\<rparr>)
   \<and> fst (Patch_init E pkg spec lvl w) \<noteq> Inl (NoSuchPatchFileError a b)"
  by (simp add: Patch_init_def env0_def repo_files_def w0_def emit_def Let_def)

theorem missing_patch_file_raises_NameError_witness:
  "fst (Patch_init env0 \<lparr>name = ''bar''\<rparr> ''missing.patch'' (PyInt 1) w0)
     = Inl (NameError ''pkg_name'')
   \<and> fst (Patch_init env0 \<lparr>name = ''bar''\<rparr> ''missing.patch'' (PyInt 1) w0)
     \<noteq> Inl (NoSuchPatchFileError ''bar'' ''/repo/packages/bar/missing.patch'')"
  using missing_patch_file_raises_NameError [of env0 "\<lparr>name = ''bar''\<rparr>" "''missing.patch''"
      "PyInt 1" w0 "''bar''" "''/repo/packages/bar/missing.patch''"]
  by simp

text \<open>
  C4. Every successfully constructed Patch has exactly one of \<open>path\<close> and \<open>url\<close> set,
  and \<open>url\<close> is the one set if and only if the specifier contains \<open>://\<close>; a remote
  specifier with a valid level is accepted whatever the file system holds, and the
  construction does nothing to the outside (no lookup, no existence check).
\<close>

theorem init_sets_exactly_one_of_path_and_url:
  "(Patch_init E pkg spec lvl w = (Inr P, w1) \<longrightarrow>
      (path P = None) \<noteq> (url P = None) \<and> (url P \<noteq> None) = str_in ''://'' spec)
   \<and> (isinstance_int lvl \<and> ge_zero lvl \<and> str_in ''://'' spec \<longrightarrow>
      Patch_init E pkg spec lvl w =
        (Inr \<lparr>pkg_name = name pkg, path_or_url = spec, path = None, url = Some spec,
               level = lvl, cached_file_hash = None\<rparr>, w))"
  by (auto simp: Patch_init_def Let_def split: if_splits)

theorem init_sets_exactly_one_of_path_and_url_witness:
  "Patch_init env0 \<lparr>name = ''foo''\<rparr> ''fix-build.patch'' (PyInt 1) w0
     = (Inr patch_foo,
        \<lparr>cwd = ''/home/user'',
         events = [DirnameLookup ''foo'', IsFile ''/repo/packages/foo/fix-build.patch'']\<rparr>)
   \<and> (path patch_foo = None) \<noteq> (url patch_foo = None)
   \<and> (url patch_foo \<noteq> None) = str_in ''://'' ''fix-build.patch''
   \<and> isinstance_int (PyInt 0) \<and> ge_zero (PyInt 0)
   \<and> str_in ''://'' ''https://example.org/p.patch''
   \<and> Patch_init env0 \<lparr>name = ''foo''\<rparr> ''https://example.org/p.patch'' (PyInt 0) w0
     = (Inr \<lparr>pkg_name = ''foo'', path_or_url = ''https://example.org/p.patch'', path = None,
             url = Some ''https://example.org/p.patch'', level = PyInt 0,
             cached_file_hash = None\<rparr>, w0)"
proof -
  have a: "str_in ''://'' ''https://example.org/p.patch''"
    by simp
  have b: "Patch_init env0 \<lparr>name = ''foo''\<rparr> ''fix-build.patch'' (PyInt 1) w0
     = (Inr patch_foo,
        \<lparr>cwd = ''/home/user'',
         events = [DirnameLookup ''foo'', IsFile ''/repo/packages/foo/fix-build.patch'']\<rparr>)"
    by (rule Patch_init_examples(1))
  show ?thesis
    using a b
      init_sets_exactly_one_of_path_and_url [of env0 "\<lparr>name = ''foo''\<rparr>" "''fix-build.patch''"
        "PyInt 1" w0 patch_foo
        "\<lparr>cwd = ''/home/user'',
          events = [DirnameLookup ''foo'', IsFile ''/repo/packages/foo/fix-build.patch'']\<rparr>"]
      init_sets_exactly_one_of_path_and_url [of env0 "\<lparr>name = ''foo''\<rparr>"
        "''https://example.org/p.patch''" "PyInt 0" w0]
    by simp
qed

text \<open>
  C5. With a non-negative \<open>int\<close> level and a local specifier that resolves to a regular
  file, construction succeeds and keeps the level; with a negative \<open>int\<close>, or with a
  level that is not an \<open>int\<close>, it raises the \<open>ValueError\<close> of the level check, and
  nothing has been resolved or looked at (the world is unchanged).
\<close>

theorem init_checks_level_first:
  "(0 \<le> n \<and> \<not> str_in ''://'' spec
      \<and> isfile E (join_path E (dirname_for_package_name E (name pkg)) spec) \<longrightarrow>
      (\<exists>P. fst (Patch_init E pkg spec (PyInt n) w) = Inr P \<and> level P = PyInt n))
   \<and> (n < 0 \<longrightarrow>
      Patch_init E pkg spec (PyInt n) w
        = (Inl (ValueError ''Patch level needs to be a non-negative integer.''), w))
   \<and> (\<not> isinstance_int v \<longrightarrow>
      Patch_init E pkg spec v w
        = (Inl (ValueError ''Patch level needs to be a non-negative integer.''), w))"
  by (simp add: Patch_init_def Let_def)

theorem init_checks_level_first_witness:
  "(0::int) \<le> 1 \<and> \<not> str_in ''://'' ''fix-build.patch''
   \<and> isfile env0 (join_path env0 (dirname_for_package_name env0 (name \<lparr>name = ''foo''\<rparr>))
         ''fix-build.patch'')
   \<and> (\<exists>P. fst (Patch_init env0 \<lparr>name = ''foo''\<rparr> ''fix-build.patch'' (PyInt 1) w0) = Inr P
         \<and> level P = PyInt 1)
   \<and> (- 1 :: int) < 0
   \<and> Patch_init env0 \<lparr>name = ''foo''\<rparr> ''fix-build.patch'' (PyInt (- 1)) w0
        = (Inl (ValueError ''Patch level needs to be a non-negative integer.''), w0)
   \<and> \<not> isinstance_int (PyStr ''1'')
   \<and> Patch_init env0 \<lparr>name = ''foo''\<rparr> ''fix-build.patch'' (PyStr ''1'') w0
        = (Inl (ValueError ''Patch level needs to be a non-negative integer.''), w0)"
proof -
  have a: "\<not> str_in ''://'' ''fix-build.patch''"
    by simp
  have b: "isfile env0 (join_path env0 (dirname_for_package_name env0 (name \<lparr>name = ''foo''\<rparr>))
         ''fix-build.patch'')"
    by (simp add: env0_def repo_files_def)
  show ?thesis
    using a b
      init_checks_level_first [of 1 "''fix-build.patch''" env0 "\<lparr>name = ''foo''\<rparr>" w0 "PyStr ''1''"]
      init_checks_level_first [of "- 1" "''fix-build.patch''" env0 "\<lparr>name = ''foo''\<rparr>" w0 "PyStr ''1''"]
    by simp
qed

section \<open>Remote patches\<close>

text \<open>
  C2. The claim: a Patch with a remote specifier is constructed without network access,
  and \<open>apply()\<close> then fetches once, runs the tool once and releases the stage. The
  first part holds (construction adds no event); the second does not: \<open>apply()\<close>
  changes to the source directory and then raises \<open>NameError\<close> for the unbound name
  \<open>self\<close> in \<open>get_url\<close>, with no fetch and no tool run.
\<close>

theorem remote_apply_raises_NameError:
  "Patch_init env0 \<lparr>name = ''foo''\<rparr> ''https://example.org/p.patch'' (PyInt 0) w0
     = (Inr patch_remote, w0)
   \<and> apply_patch env0 stage0 patch_remote w0
     = (Inl (NameError ''self''), patch_remote,
        \<lparr>cwd = ''/stage/src'', events = [ChdirToSource]\<rparr>)
   \<and> StageFetch u \<notin> set (events (snd (snd (apply_patch env0 stage0 patch_remote w0))))
   \<and> RunPatch args \<notin> set (events (snd (snd (apply_patch env0 stage0 patch_remote w0))))"
  by (simp add: Patch_init_def apply_patch_def stage0_def patch_remote_def get_patch_def
      get_url_def w0_def emit_def)

theorem remote_apply_raises_NameError_witness:
  "fst (apply_patch env0 stage0 patch_remote w0) = Inl (NameError ''self'')
   \<and> StageFetch ''https://example.org/p.patch''
       \<notin> set (events (snd (snd (apply_patch env0 stage0 patch_remote w0))))"
  using remote_apply_raises_NameError [of "''https://example.org/p.patch''" "[]"]
  by simp

section \<open>Applying a patch\<close>

lemma get_patch_examples:
  "fst (get_patch patch_foo w) = Inr (Some ''/repo/packages/foo/fix-build.patch'', [])"
  "fst (get_patch patch_baz w) = Inr (Some ''/repo/packages/baz/other.patch'', [])"
  "fst (get_patch patch_qux w) = Inr (Some ''/repo/packages/qux/same.patch'', [])"
  by (simp_all add: get_patch_def get_file_def patch_foo_def patch_baz_def patch_qux_def)

lemma read_bytes_examples:
  "read_bytes env0 ''/repo/packages/foo/fix-build.patch'' = Some [100, 105, 102, 102]"
  "read_bytes env0 ''/repo/packages/baz/other.patch'' = Some [45, 45, 45]"
  "read_bytes env0 ''/repo/packages/qux/same.patch'' = Some [100, 105, 102, 102]"
  "read_bytes env_fail = read_bytes env0"
  by (simp_all add: env0_def env_fail_def repo_files_def)

lemma chdir_stage0: "chdir_to_source stage0 (cwd w0) = Inr ''/stage/src''"
  by (simp add: stage0_def)

text \<open>
  C7. The claim: \<open>apply()\<close> passes the tool a flag for "apply only if not already
  applied". The comment above the call says \<open>Use -N\<close>, and the call does not pass it:
  for the patch of package \<open>foo\<close> at level 1 the one tool run has the arguments
  \<open>-s -p 1 -i <file>\<close>, and \<open>-N\<close> is not among them.
\<close>

theorem apply_does_not_pass_N:
  "events (snd (snd (apply_patch env0 stage0 patch_foo w0)))
     = [ChdirToSource, OpenRead ''/repo/packages/foo/fix-build.patch'',
        RunPatch [''-s'', ''-p'', ''1'', ''-i'', ''/repo/packages/foo/fix-build.patch'']]
   \<and> ''-N'' \<notin> set [''-s'', ''-p'', ''1'', ''-i'', ''/repo/packages/foo/fix-build.patch'']"
  using apply_patch_readable [OF chdir_stage0 get_patch_examples(1) [of w0] read_bytes_examples(1)]
  by (simp add: patch_args_def patch_foo_def w0_def)

theorem apply_does_not_pass_N_witness:
  "RunPatch [''-s'', ''-p'', ''1'', ''-i'', ''/repo/packages/foo/fix-build.patch'']
     \<in> set (events (snd (snd (apply_patch env0 stage0 patch_foo w0))))
   \<and> RunPatch [''-s'', ''-N'', ''-p'', ''1'', ''-i'', ''/repo/packages/foo/fix-build.patch'']
     \<notin> set (events (snd (snd (apply_patch env0 stage0 patch_foo w0))))"
  using apply_does_not_pass_N
  by simp

text \<open>
  C8, as stated: when the tool fails, \<open>apply()\<close> fails with an error carrying the
  package name, the specifier and the level. It does not: with a tool that exits with
  status 1 and \<open>malformed patch\<close>, two patches that differ in package, specifier and
  level fail with the very same error, the tool's own.
\<close>

theorem tool_error_not_wrapped_counterexample:
  "fst (apply_patch env_fail stage0 patch_foo w0) = Inl (ProcessError 1 ''malformed patch'')
   \<and> fst (apply_patch env_fail stage0 patch_baz w0) = Inl (ProcessError 1 ''malformed patch'')
   \<and> pkg_name patch_foo \<noteq> pkg_name patch_baz
   \<and> path_or_url patch_foo \<noteq> path_or_url patch_baz
   \<and> level patch_foo \<noteq> level patch_baz"
proof -
  have r: "read_bytes env_fail ''/repo/packages/foo/fix-build.patch'' = Some [100, 105, 102, 102]"
    "read_bytes env_fail ''/repo/packages/baz/other.patch'' = Some [45, 45, 45]"
    by (simp_all add: read_bytes_examples)
  have "fst (apply_patch env_fail stage0 patch_foo w0) = Inl (ProcessError 1 ''malformed patch'')"
    using apply_patch_readable [OF chdir_stage0 get_patch_examples(1) [of w0] r(1)]
    by (simp add: env_fail_def)
  moreover
  have "fst (apply_patch env_fail stage0 patch_baz w0) = Inl (ProcessError 1 ''malformed patch'')"
    using apply_patch_readable [OF chdir_stage0 get_patch_examples(2) [of w0] r(2)]
    by (simp add: env_fail_def)
  ultimately show ?thesis
    by (simp add: patch_foo_def patch_baz_def)
qed

text \<open>
  C8, amended: when the tool call raises during \<open>apply()\<close>, \<open>apply()\<close> fails with
  exactly the exception the tool call raised, and the tool has been run once (no retry).
\<close>

theorem apply_propagates_tool_error:
  assumes "chdir_to_source S (cwd w) = Inr d"
    and "fst (get_patch P w) = Inr (Some f, rel)"
    and "read_bytes E f = Some B"
    and "patch_exe E [''-s'', ''-p'', py_str (level P), ''-i'', f] = Some e"
  shows "fst (apply_patch E S P w) = Inl e
         \<and> events (snd (snd (apply_patch E S P w)))
             = events w @ [ChdirToSource, OpenRead f,
                           RunPatch [''-s'', ''-p'', py_str (level P), ''-i'', f]]"
  using apply_patch_readable [OF assms(1-3)] assms(4) by (simp add: patch_args_def)

theorem apply_propagates_tool_error_witness:
  "chdir_to_source stage0 (cwd w0) = Inr ''/stage/src''
   \<and> fst (get_patch patch_foo w0) = Inr (Some ''/repo/packages/foo/fix-build.patch'', [])
   \<and> read_bytes env_fail ''/repo/packages/foo/fix-build.patch'' = Some [100, 105, 102, 102]
   \<and> patch_exe env_fail [''-s'', ''-p'', py_str (level patch_foo), ''-i'',
                          ''/repo/packages/foo/fix-build.patch'']
       = Some (ProcessError 1 ''malformed patch'')
   \<and> fst (apply_patch env_fail stage0 patch_foo w0) = Inl (ProcessError 1 ''malformed patch'')
   \<and> events (snd (snd (apply_patch env_fail stage0 patch_foo w0)))
       = [ChdirToSource, OpenRead ''/repo/packages/foo/fix-build.patch'',
          RunPatch [''-s'', ''-p'', ''1'', ''-i'', ''/repo/packages/foo/fix-build.patch'']]"
proof -
  have r: "read_bytes env_fail ''/repo/packages/foo/fix-build.patch'' = Some [100, 105, 102, 102]"
    by (simp add: read_bytes_examples)
  have x: "patch_exe env_fail [''-s'', ''-p'', py_str (level patch_foo), ''-i'',
                          ''/repo/packages/foo/fix-build.patch'']
       = Some (ProcessError 1 ''malformed patch'')"
    by (simp add: env_fail_def)
  show ?thesis
    using chdir_stage0 get_patch_examples(1) [of w0] r x
      apply_propagates_tool_error [OF chdir_stage0 get_patch_examples(1) [of w0] r x]
    by (simp add: patch_foo_def w0_def)
qed

text \<open>
  C9, as stated: \<open>apply()\<close> does not change the working directory. It does: called in
  \<open>/home/user\<close>, it ends in the stage's source directory, and the first thing it does
  is \<open>stage.chdir_to_source()\<close>.
\<close>

theorem apply_changes_directory_counterexample:
  "cwd w0 = ''/home/user''
   \<and> cwd (snd (snd (apply_patch env0 stage0 patch_foo w0))) = ''/stage/src''
   \<and> hd (events (snd (snd (apply_patch env0 stage0 patch_foo w0)))) = ChdirToSource"
  using apply_patch_readable [OF chdir_stage0 get_patch_examples(1) [of w0] read_bytes_examples(1)]
  by (simp add: w0_def)

lemma events_get_patch: "events (snd (get_patch P w)) = events w"
  by (simp add: get_patch_def get_file_def get_url_def split: option.splits)

lemma cwd_get_patch: "cwd (snd (get_patch P w)) = cwd w"
  by (simp add: get_patch_def get_file_def get_url_def split: option.splits)

lemma file_hash_world:
  "cwd (snd (file_hash E pf w)) = cwd w
   \<and> take (length (events w)) (events (snd (file_hash E pf w))) = events w"
  by (simp add: file_hash_def emit_def split: option.splits)

lemma apply_body_world:
  "cwd (snd (snd (apply_body E P pf w))) = cwd w
   \<and> take (length (events w)) (events (snd (snd (apply_body E P pf w)))) = events w"
  by (simp add: apply_body_def file_hash_def emit_def Let_def split: option.splits)

text \<open>
  C9, amended: the first effect of every \<open>apply()\<close> is the call of
  \<open>chdir_to_source\<close> on the supplied stage; the working directory after \<open>apply()\<close>
  is the one that call set, or the old one when the call raised, in which case
  \<open>apply()\<close> fails with that exception and does nothing else.
\<close>

theorem apply_asks_stage_to_chdir_first:
  "take (Suc (length (events w))) (events (snd (snd (apply_patch E S P w))))
     = events w @ [ChdirToSource]
   \<and> cwd (snd (snd (apply_patch E S P w)))
     = (case chdir_to_source S (cwd w) of Inl e \<Rightarrow> cwd w | Inr d \<Rightarrow> d)
   \<and> (case chdir_to_source S (cwd w) of
        Inl e \<Rightarrow> apply_patch E S P w = (Inl e, P, emit ChdirToSource w)
      | Inr d \<Rightarrow> True)"
proof (cases "chdir_to_source S (cwd w)")
  case (Inl e)
  then show ?thesis
    by (simp add: apply_patch_def emit_def)
next
  case (Inr d)
  define v where "v = (emit ChdirToSource w)\<lparr>cwd := d\<rparr>"
  have v: "cwd v = d" "events v = events w @ [ChdirToSource]"
    by (simp_all add: v_def emit_def)
  show ?thesis
  proof (cases "get_patch P v")
    case (Pair r v1)
    have v1: "v1 = v"
      using Pair get_patch_world [of P v v] by simp
    show ?thesis
    proof (cases r)
      case (Inl e)
      then show ?thesis
        using Inr Pair v v1 by (simp add: apply_patch_def Let_def v_def [symmetric])
    next
      case (Inr a)
      obtain pf rel where a: "a = (pf, rel)"
        by (cases a)
      have rel: "rel = []"
        using Pair Inr a get_patch_acquired [of P v pf rel v1] by simp
      have "apply_patch E S P w =
              (fst (apply_body E P pf v), fst (snd (apply_body E P pf v)),
               snd (snd (apply_body E P pf v)))"
        using \<open>chdir_to_source S (cwd w) = Inr d\<close> Pair Inr a v1 rel
        by (simp add: apply_patch_def Let_def v_def [symmetric] leave_nothing split: prod.splits)
      moreover
      have "take (length (events v)) (events (snd (snd (apply_body E P pf v)))) = events v"
        "cwd (snd (snd (apply_body E P pf v))) = cwd v"
        using apply_body_world [of E P pf v] by simp_all
      ultimately show ?thesis
        using \<open>chdir_to_source S (cwd w) = Inr d\<close> v by simp
    qed
  qed
qed

theorem apply_asks_stage_to_chdir_first_witness:
  "take (Suc (length (events w0))) (events (snd (snd (apply_patch env0 stage0 patch_remote w0))))
     = events w0 @ [ChdirToSource]
   \<and> cwd (snd (snd (apply_patch env0 stage0 patch_remote w0))) = ''/stage/src''"
  using apply_asks_stage_to_chdir_first [of w0 env0 stage0 patch_remote]
  by (simp add: stage0_def)

section \<open>Known values of the fingerprint and of \<open>str\<close>\<close>

lemma py_str_examples:
  "py_str (PyInt 0) = ''0''" "py_str (PyInt 2) = ''2''" "py_str (PyInt 12) = ''12''"
  "py_str (PyInt 305) = ''305''"
  by simp_all

lemma fingerprint_examples:
  "lower (b32encode (digest_bytes 0x2d2dee7af60385a060eae7f556845a8b))
     = ''fuw646xwaoc2ayhk472vnbc2rm======''"
  "lower (b32encode (digest_bytes 0x9efc314b65237d5d646e1b817372afc6))
     = ''t36dcs3fen6v2zdodoaxg4vpyy======''"
  by (simp_all add: b32encode_def b32_quantum_def b32tab_def Let_def upt_rec lower_def
      lower_char_def digest_bytes_def replicate_numeral_Cons)

lemma md5_digest_examples:
  "md5_digest env0 [100, 105, 102, 102] = 0x2d2dee7af60385a060eae7f556845a8b"
  "md5_digest env0 [45, 45, 45] = 0x9efc314b65237d5d646e1b817372afc6"
  "md5_digest env_edited = md5_digest env0"
  by (simp_all add: env0_def env_edited_def md5_known_def)

lemma env_edited_examples:
  "read_bytes env_edited ''/repo/packages/foo/fix-build.patch'' = Some [45, 45, 45]"
  "patch_exe env_edited args = None"
  by (simp_all add: env_edited_def env0_def)

lemma get_patch_local:
  "url P = None \<Longrightarrow> path P = Some f \<Longrightarrow> fst (get_patch P w) = Inr (Some f, [])"
  by (simp add: get_patch_def get_file_def)

lemma Patch_file_hash_foo:
  "Patch_file_hash env0 patch_foo w0
     = (Inr ''fuw646xwaoc2ayhk472vnbc2rm======'',
        patch_foo\<lparr>cached_file_hash := Some ''fuw646xwaoc2ayhk472vnbc2rm======''\<rparr>,
        emit (OpenRead ''/repo/packages/foo/fix-build.patch'') w0)"
  using compute_file_hash_readable [OF get_patch_examples(1) [of w0] read_bytes_examples(1), of w0]
  by (simp add: Patch_file_hash_def patch_foo_def md5_digest_examples fingerprint_examples)

section \<open>The fingerprint\<close>




section \<open>Tool runs of local and remote patches\<close>

text \<open>
  C6. The claim: for every Patch, \<open>apply()\<close> runs the tool exactly once, with the silent
  flag, \<open>-p\<close> and the strip level, \<open>-i\<close> and the acquired file. For the local patches
  of \<open>foo\<close> (level 1) and \<open>qux\<close> (level 12) it does; for the Patch of a remote
  specifier it runs the tool not once but never, since \<open>get_url\<close> raises before the
  file is acquired.
\<close>

theorem remote_apply_runs_no_tool:
  "tool_runs (events (snd (snd (apply_patch env0 stage0 patch_remote w0)))) = []
   \<and> tool_runs (events (snd (snd (apply_patch env0 stage0 patch_foo w0))))
       = [[''-s'', ''-p'', ''1'', ''-i'', ''/repo/packages/foo/fix-build.patch'']]
   \<and> tool_runs (events (snd (snd (apply_patch env0 stage0 patch_qux w0))))
       = [[''-s'', ''-p'', ''12'', ''-i'', ''/repo/packages/qux/same.patch'']]"
proof -
  have "tool_runs (events (snd (snd (apply_patch env0 stage0 patch_remote w0)))) = []"
    by (simp add: apply_patch_def stage0_def patch_remote_def get_patch_def get_url_def w0_def
        emit_def)
  moreover
  have "tool_runs (events (snd (snd (apply_patch env0 stage0 patch_foo w0))))
       = [[''-s'', ''-p'', ''1'', ''-i'', ''/repo/packages/foo/fix-build.patch'']]"
    using apply_patch_readable [OF chdir_stage0 get_patch_examples(1) [of w0] read_bytes_examples(1)]
    by (simp add: patch_args_def patch_foo_def w0_def)
  moreover
  have "tool_runs (events (snd (snd (apply_patch env0 stage0 patch_qux w0))))
       = [[''-s'', ''-p'', ''12'', ''-i'', ''/repo/packages/qux/same.patch'']]"
    using apply_patch_readable [OF chdir_stage0 get_patch_examples(3) [of w0] read_bytes_examples(3)]
    by (simp add: patch_args_def patch_qux_def w0_def)
  ultimately show ?thesis
    by simp
qed

theorem remote_apply_runs_no_tool_witness:
  "length (tool_runs (events (snd (snd (apply_patch env0 stage0 patch_remote w0))))) = 0
   \<and> length (tool_runs (events (snd (snd (apply_patch env0 stage0 patch_foo w0))))) = 1"
  using remote_apply_runs_no_tool
  by simp

section \<open>The cached fingerprint\<close>

lemma apply_edited_foo:
  "apply_patch env_edited stage0
     (patch_foo\<lparr>cached_file_hash := Some ''fuw646xwaoc2ayhk472vnbc2rm======''\<rparr>) w0
   = (Inr (),
      patch_foo\<lparr>cached_file_hash := Some ''t36dcs3fen6v2zdodoaxg4vpyy======''\<rparr>,
      \<lparr>cwd = ''/stage/src'',
        events = [ChdirToSource, OpenRead ''/repo/packages/foo/fix-build.patch'',
                  RunPatch [''-s'', ''-p'', ''1'', ''-i'',
                            ''/repo/packages/foo/fix-build.patch'']]\<rparr>)"
proof -
  have g: "fst (get_patch (patch_foo\<lparr>cached_file_hash :=
              Some ''fuw646xwaoc2ayhk472vnbc2rm======''\<rparr>) w0)
           = Inr (Some ''/repo/packages/foo/fix-build.patch'', [])"
    by (simp add: get_patch_local patch_foo_def)
  show ?thesis
    using apply_patch_readable [OF chdir_stage0 g env_edited_examples(1)]
    by (simp add: env_edited_examples md5_digest_examples fingerprint_examples patch_args_def
        patch_foo_def w0_def)
qed

text \<open>
  C10, as stated: once the fingerprint is computed, every later \<open>file_hash\<close> returns
  the string the first call returned. It does not after an \<open>apply()\<close>: the Patch of
  \<open>foo\<close> first returns the hash of \<open>diff\<close>; the file is rewritten to \<open>---\<close>,
  \<open>apply()\<close> succeeds and stores the hash of what it read, and \<open>file_hash\<close> then
  returns that other string.
\<close>

theorem apply_replaces_fingerprint_counterexample:
  "Patch_file_hash env0 patch_foo w0
     = (Inr ''fuw646xwaoc2ayhk472vnbc2rm======'',
        patch_foo\<lparr>cached_file_hash := Some ''fuw646xwaoc2ayhk472vnbc2rm======''\<rparr>,
        emit (OpenRead ''/repo/packages/foo/fix-build.patch'') w0)
   \<and> fst (apply_patch env_edited stage0
            (patch_foo\<lparr>cached_file_hash := Some ''fuw646xwaoc2ayhk472vnbc2rm======''\<rparr>) w0)
       = Inr ()
   \<and> fst (Patch_file_hash env_edited
            (fst (snd (apply_patch env_edited stage0
               (patch_foo\<lparr>cached_file_hash := Some ''fuw646xwaoc2ayhk472vnbc2rm======''\<rparr>)
               w0))) w0)
       = Inr ''t36dcs3fen6v2zdodoaxg4vpyy======''
   \<and> ''t36dcs3fen6v2zdodoaxg4vpyy======'' \<noteq> ''fuw646xwaoc2ayhk472vnbc2rm======''"
  using Patch_file_hash_foo
  by (simp add: apply_edited_foo Patch_file_hash_def)

text \<open>
  C10, amended: a \<open>file_hash\<close> call on a Patch that holds a hash (one that an earlier
  \<open>file_hash\<close> returned, or any stored hash that is not empty) returns the stored hash,
  whatever the file system holds by then, and leaves the Patch and the world as they
  are: nothing is acquired and nothing is read. An \<open>apply()\<close> that gets to read the
  file replaces the stored hash by the hash of the bytes it read, and it is that hash
  which later \<open>file_hash\<close> calls return.
\<close>

theorem file_hash_returns_stored_hash:
  "(Patch_file_hash E P w = (Inr h, P1, w1) \<longrightarrow>
      Patch_file_hash E' P1 w' = (Inr h, P1, w'))
   \<and> (cached_file_hash P = Some h \<and> h \<noteq> [] \<longrightarrow>
      Patch_file_hash E' P w' = (Inr h, P, w'))
   \<and> (chdir_to_source S (cwd w) = Inr d \<and> url P = None \<and> path P = Some f
        \<and> read_bytes E f = Some B \<longrightarrow>
      cached_file_hash (fst (snd (apply_patch E S P w)))
        = Some (lower (b32encode (digest_bytes (md5_digest E B))))
      \<and> Patch_file_hash E' (fst (snd (apply_patch E S P w))) w'
        = (Inr (lower (b32encode (digest_bytes (md5_digest E B)))),
           fst (snd (apply_patch E S P w)), w'))"
proof -
  have one: "Patch_file_hash E P w = (Inr h, P1, w1) \<longrightarrow>
      Patch_file_hash E' P1 w' = (Inr h, P1, w')"
    using Patch_file_hash_stores [of E P w h P1 w1] by (auto simp: Patch_file_hash_cached)
  have two: "cached_file_hash P = Some h \<and> h \<noteq> [] \<longrightarrow>
      Patch_file_hash E' P w' = (Inr h, P, w')"
    by (simp add: Patch_file_hash_cached)
  have three: "cached_file_hash (fst (snd (apply_patch E S P w)))
        = Some (lower (b32encode (digest_bytes (md5_digest E B))))
      \<and> Patch_file_hash E' (fst (snd (apply_patch E S P w))) w'
        = (Inr (lower (b32encode (digest_bytes (md5_digest E B)))),
           fst (snd (apply_patch E S P w)), w')"
    if "chdir_to_source S (cwd w) = Inr d" and "url P = None" and "path P = Some f"
      and "read_bytes E f = Some B"
    using apply_patch_readable [OF that(1) get_patch_local [OF that(2) that(3), of w] that(4)]
    by (simp add: Patch_file_hash_cached hash_not_empty)
  show ?thesis
    using one two three by blast
qed

theorem file_hash_returns_stored_hash_witness:
  "Patch_file_hash env0 patch_foo w0
     = (Inr ''fuw646xwaoc2ayhk472vnbc2rm======'',
        patch_foo\<lparr>cached_file_hash := Some ''fuw646xwaoc2ayhk472vnbc2rm======''\<rparr>,
        emit (OpenRead ''/repo/packages/foo/fix-build.patch'') w0)
   \<and> Patch_file_hash env_edited
        (patch_foo\<lparr>cached_file_hash := Some ''fuw646xwaoc2ayhk472vnbc2rm======''\<rparr>) w0
     = (Inr ''fuw646xwaoc2ayhk472vnbc2rm======'',
        patch_foo\<lparr>cached_file_hash := Some ''fuw646xwaoc2ayhk472vnbc2rm======''\<rparr>, w0)
   \<and> chdir_to_source stage0 (cwd w0) = Inr ''/stage/src''
   \<and> url patch_baz = None \<and> path patch_baz = Some ''/repo/packages/baz/other.patch''
   \<and> read_bytes env0 ''/repo/packages/baz/other.patch'' = Some [45, 45, 45]
   \<and> cached_file_hash (fst (snd (apply_patch env0 stage0 patch_baz w0)))
       = Some ''t36dcs3fen6v2zdodoaxg4vpyy======''
   \<and> Patch_file_hash env_edited (fst (snd (apply_patch env0 stage0 patch_baz w0))) w0
       = (Inr ''t36dcs3fen6v2zdodoaxg4vpyy======'',
          fst (snd (apply_patch env0 stage0 patch_baz w0)), w0)"
proof -
  have b: "url patch_baz = None" "path patch_baz = Some ''/repo/packages/baz/other.patch''"
    by (simp_all add: patch_baz_def)
  have s: "cached_file_hash
             (patch_foo\<lparr>cached_file_hash := Some ''fuw646xwaoc2ayhk472vnbc2rm======''\<rparr>)
           = Some ''fuw646xwaoc2ayhk472vnbc2rm======''"
    by simp
  show ?thesis
    using Patch_file_hash_foo chdir_stage0 b read_bytes_examples(2) s
      file_hash_returns_stored_hash [of env0 patch_foo w0 "''fuw646xwaoc2ayhk472vnbc2rm======''"
        "patch_foo\<lparr>cached_file_hash := Some ''fuw646xwaoc2ayhk472vnbc2rm======''\<rparr>"
        "emit (OpenRead ''/repo/packages/foo/fix-build.patch'') w0" env_edited w0]
      file_hash_returns_stored_hash [of env0 patch_baz w0 "''x''" patch_baz w0 env_edited w0
        stage0 "''/stage/src''" "''/repo/packages/baz/other.patch''" "[45, 45, 45]"]
    by (simp add: md5_digest_examples fingerprint_examples)
qed

end
